theory Spec2Isabelle
  imports Main "HOL-Library.Sublist"
begin

section \<open>The interview-platform workflow (autogen/autogen_interview_platform.py)\<close>

text \<open>
  The workflow is a fixed sequence of five phases. Each phase looks its system message up
  in the agents dictionary, builds its user message from the outputs it is handed, sends
  both to the chat-completion client, stores the reply in \<open>self.outputs\<close> and returns it.
  Nothing in the file catches an exception of the client before \<open>main\<close>, which prints a
  message and re-raises.

  Python strings are modelled as \<open>string\<close> with one \<open>char\<close> per code point below 256.
\<close>

subsection \<open>Data\<close>

text \<open>
  The exceptions a phase can meet: a missing key of the agents dictionary, or an exception
  of the remote call. The remote exceptions are split in the two classes the specification
  speaks of; the source treats both alike.
\<close>

datatype api_error = TransientError | FatalError

datatype exn = KeyError string | APIError api_error

text \<open>A chat message \<open>{"role": r, "content": c}\<close> is the pair \<open>(r, c)\<close>.\<close>

type_synonym message = "string \<times> string"

text \<open>
  The remote model is not a function of its input alone: the same messages may be answered
  or refused at different times. The client is therefore indexed by the number of calls
  made before. Its result is \<open>response.choices[0].message.content\<close>, or the exception.
\<close>

type_synonym client = "nat \<Rightarrow> message list \<Rightarrow> api_error + string"

type_synonym addr = nat

type_synonym pydict = "string \<rightharpoonup> string"

text \<open>
  What a run does, in order: a phase renders its user message from the arguments it was
  called with, it calls the model, it stores an output under a key of \<open>self.outputs\<close>.
\<close>

datatype event =
    is_Render: Render string "string list"
  | is_Call: Call string "message list"
  | is_Record: Record string string

text \<open>
  Dictionaries are objects: \<open>self.outputs\<close> holds a reference, and \<open>execute_workflow\<close>
  returns that reference, not a copy. The store maps addresses to dictionaries;
  \<open>next_addr\<close> is the first address never handed out.
\<close>

record world =
  dicts :: "addr \<Rightarrow> pydict"
  next_addr :: addr
  trace :: "event list"

text \<open>\<open>InterviewPlatformAgents\<close>: the agents dictionary and the client.\<close>

record agents_manager =
  agents :: pydict
  client :: client

text \<open>\<open>InterviewPlatformWorkflow\<close>: the manager and the reference to the outputs.\<close>

record workflow =
  agents_manager :: agents_manager
  outputs :: addr

subsection \<open>The agents\<close>

text \<open>
  An agent is a system message stored under a key of \<open>self.agents\<close>. The manager is
  read, never written, once the workflow runs, so it is passed by value.
\<close>

definition agents_manager_init :: "client \<Rightarrow> agents_manager" where
  "agents_manager_init cl = \<lparr>agents = Map.empty, client = cl\<rparr>"

definition research_system_message :: string where
  "research_system_message =
     ''You are an expert market research analyst specializing in AI-powered\<newline>'' @
     ''        interview platforms and recruitment technology. Your task is to:\<newline>'' @
     ''\<newline>'' @
     ''        1. Research and identify 3-4 major competitors in the AI interview space\<newline>'' @
     ''           (e.g., HireVue, Pymetrics, Codility, etc.)\<newline>'' @
     ''        2. Summarize their key features and market positioning\<newline>'' @
     ''        3. Identify current trends in AI-powered recruiting\<newline>'' @
     ''        4. Note any unmet market needs\<newline>'' @
     ''\<newline>'' @
     ''        Provide a comprehensive competitive landscape analysis. Be specific with competitor names,\<newline>'' @
     ''        features, and market gaps you identify.\<newline>'' @
     ''\<newline>'' @
     ''        Format your response as a structured analysis with clear sections.''"

definition create_research_agent :: "agents_manager \<Rightarrow> string \<times> agents_manager" where
  "create_research_agent self =
     (research_system_message, self\<lparr>agents := (agents self)(''research'' \<mapsto> research_system_message)\<rparr>)"

definition analysis_system_message :: string where
  "analysis_system_message =
     ''You are a strategic product analyst with expertise in SaaS product\<newline>'' @
     ''        development. Based on market research findings, your task is to:\<newline>'' @
     ''\<newline>'' @
     ''        1. Analyze the competitive landscape provided\<newline>'' @
     ''        2. Identify 3 key market gaps or opportunities\<newline>'' @
     ''        3. For each opportunity, explain:\<newline>'' @
     ''           - What the gap is\<newline>'' @
     ''           - Why it matters\<newline>'' @
     ''           - How it can be addressed\<newline>'' @
     ''           - Potential market size/impact\<newline>'' @
     ''\<newline>'' @
     ''        Focus on opportunities that are:\<newline>'' @
     ''        - Underserved by competitors\<newline>'' @
     ''        - Valuable to customers\<newline>'' @
     ''        - Technically feasible\<newline>'' @
     ''\<newline>'' @
     ''        Provide structured analysis with numbered opportunities.''"

definition create_analysis_agent :: "agents_manager \<Rightarrow> string \<times> agents_manager" where
  "create_analysis_agent self =
     (analysis_system_message, self\<lparr>agents := (agents self)(''analysis'' \<mapsto> analysis_system_message)\<rparr>)"

definition blueprint_system_message :: string where
  "blueprint_system_message =
     ''You are an experienced product designer and UX strategist.\<newline>'' @
     ''        Based on the market analysis and identified opportunities, create a product blueprint:\<newline>'' @
     ''\<newline>'' @
     ''        1. Core Features (MVP):\<newline>'' @
     ''           - List 5-7 essential features\<newline>'' @
     ''           - Include feature descriptions\<newline>'' @
     ''           - Explain how each addresses identified opportunities\<newline>'' @
     ''\<newline>'' @
     ''        2. User Journey:\<newline>'' @
     ''           - Map the main user flow for a hiring manager\<newline>'' @
     ''           - Include key touchpoints\<newline>'' @
     ''           - Describe the interview scheduling and analysis flow\<newline>'' @
     ''\<newline>'' @
     ''        3. Differentiation:\<newline>'' @
     ''           - Highlight how this product stands out\<newline>'' @
     ''           - Key competitive advantages\<newline>'' @
     ''\<newline>'' @
     ''        4. Target User Personas:\<newline>'' @
     ''           - Hiring managers\<newline>'' @
     ''           - Recruiters\<newline>'' @
     ''           - Candidates\<newline>'' @
     ''\<newline>'' @
     ''        Format as a comprehensive product blueprint document.''"

definition create_blueprint_agent :: "agents_manager \<Rightarrow> string \<times> agents_manager" where
  "create_blueprint_agent self =
     (blueprint_system_message, self\<lparr>agents := (agents self)(''blueprint'' \<mapsto> blueprint_system_message)\<rparr>)"

definition technical_system_message :: string where
  "technical_system_message =
     ''You are a senior AI engineer and technical architect specializing \<newline>'' @
     ''        in machine learning systems and scalable software architecture. Your task is to:\<newline>'' @
     ''\<newline>'' @
     ''        1. Technical Feasibility Assessment:\<newline>'' @
     ''           - Evaluate which AI/ML features are technically feasible\<newline>'' @
     ''           - Identify potential technical challenges and limitations\<newline>'' @
     ''           - Suggest alternative technical approaches if needed\<newline>'' @
     ''\<newline>'' @
     ''        2. Implementation Requirements:\<newline>'' @
     ''           - Estimate development complexity and timelines\<newline>'' @
     ''           - Identify required technologies and frameworks\<newline>'' @
     ''           - Suggest optimal tech stack for the proposed features\<newline>'' @
     ''\<newline>'' @
     ''        3. Scalability & Performance:\<newline>'' @
     ''           - Assess scalability requirements for multi-user platform\<newline>'' @
     ''           - Identify potential performance bottlenecks\<newline>'' @
     ''           - Recommend architecture patterns for reliability\<newline>'' @
     ''\<newline>'' @
     ''        4. Data & Infrastructure:\<newline>'' @
     ''           - Analyze data requirements for AI models\<newline>'' @
     ''           - Suggest infrastructure needs (cloud, storage, compute)\<newline>'' @
     ''           - Identify data privacy and security considerations\<newline>'' @
     ''\<newline>'' @
     ''        Provide a structured technical assessment with clear recommendations.''"

definition create_technical_agent :: "agents_manager \<Rightarrow> string \<times> agents_manager" where
  "create_technical_agent self =
     (technical_system_message, self\<lparr>agents := (agents self)(''technical'' \<mapsto> technical_system_message)\<rparr>)"

definition reviewer_system_message :: string where
  "reviewer_system_message =
     ''You are an experienced product executive and business strategist.\<newline>'' @
     ''        Your role is to review the product blueprint and provide strategic recommendations:\<newline>'' @
     ''\<newline>'' @
     ''        1. Feasibility Assessment:\<newline>'' @
     ''           - Is the feature set realistic to build?\<newline>'' @
     ''           - What might be missing?\<newline>'' @
     ''\<newline>'' @
     ''        2. Market Viability:\<newline>'' @
     ''           - Will this product succeed?\<newline>'' @
     ''           - Any market risks?\<newline>'' @
     ''\<newline>'' @
     ''        3. Business Model Suggestions:\<newline>'' @
     ''           - Pricing strategy recommendations\<newline>'' @
     ''           - Revenue streams\<newline>'' @
     ''\<newline>'' @
     ''        4. Implementation Roadmap:\<newline>'' @
     ''           - Phased launch approach\<newline>'' @
     ''           - Key milestones\<newline>'' @
     ''\<newline>'' @
     ''        5. Next Steps & Action Items:\<newline>'' @
     ''           - Top 5 priorities for next phase\<newline>'' @
     ''           - Resource requirements\<newline>'' @
     ''\<newline>'' @
     ''        Provide constructive feedback and actionable recommendations.''"

definition create_reviewer_agent :: "agents_manager \<Rightarrow> string \<times> agents_manager" where
  "create_reviewer_agent self =
     (reviewer_system_message, self\<lparr>agents := (agents self)(''reviewer'' \<mapsto> reviewer_system_message)\<rparr>)"

subsection \<open>Primitive steps\<close>

definition log :: "event \<Rightarrow> world \<Rightarrow> world" where
  "log e w = w\<lparr>trace := trace w @ [e]\<rparr>"

definition n_calls :: "event list \<Rightarrow> nat" where
  "n_calls tr = length (filter is_Call tr)"

text \<open>\<open>{}\<close>: a fresh, empty dictionary.\<close>

definition new_dict :: "world \<Rightarrow> addr \<times> world" where
  "new_dict w =
     (next_addr w,
      w\<lparr>dicts := (dicts w)(next_addr w := Map.empty), next_addr := Suc (next_addr w)\<rparr>)"

text \<open>\<open>d[k] = v\<close> on the dictionary at address \<open>a\<close>.\<close>

definition dict_setitem :: "addr \<Rightarrow> string \<Rightarrow> string \<Rightarrow> world \<Rightarrow> world" where
  "dict_setitem a k v w = w\<lparr>dicts := (dicts w)(a := (dicts w a)(k \<mapsto> v))\<rparr>"

text \<open>\<open>self.agents_manager.client.chat.completions.create(...)\<close>, then the content.\<close>

definition chat_completion ::
  "agents_manager \<Rightarrow> string \<Rightarrow> message list \<Rightarrow> world \<Rightarrow> (api_error + string) \<times> world" where
  "chat_completion am stage messages w =
     (client am (n_calls (trace w)) messages, log (Call stage messages) w)"

text \<open>\<open>self.outputs[key] = value\<close>.\<close>

definition set_output :: "workflow \<Rightarrow> string \<Rightarrow> string \<Rightarrow> world \<Rightarrow> world" where
  "set_output self key v w = log (Record key v) (dict_setitem (outputs self) key v w)"

subsection \<open>The user messages\<close>

definition initial_message :: string where
  "initial_message =
     ''Please conduct a comprehensive market analysis for AI-powered\<newline>'' @
     ''        interview platforms. Focus on:\<newline>'' @
     ''\<newline>'' @
     ''        1. Current market leaders and their key features\<newline>'' @
     ''        2. Market trends and innovations\<newline>'' @
     ''        3. Unmet needs and gaps\<newline>'' @
     ''\<newline>'' @
     ''        Provide your analysis in a structured format.''"

definition analysis_message :: "string \<Rightarrow> string" where
  "analysis_message research_output =
     ''Based on the following market research, identify 3 key\<newline>'' @
     ''        opportunities for an AI-powered interview platform:\<newline>'' @
     ''\<newline>'' @
     ''        RESEARCH FINDINGS:\<newline>'' @
     ''        '' @
     research_output @
     ''\<newline>'' @
     ''\<newline>'' @
     ''        Please provide detailed analysis of market gaps and opportunities.''"

definition blueprint_message :: "string \<Rightarrow> string \<Rightarrow> string" where
  "blueprint_message research_output analysis_output =
     ''Based on the market research and opportunity analysis below,\<newline>'' @
     ''        create a comprehensive product blueprint for an AI-powered interview platform:\<newline>'' @
     ''\<newline>'' @
     ''        MARKET RESEARCH:\<newline>'' @
     ''        '' @
     research_output @
     ''\<newline>'' @
     ''\<newline>'' @
     ''        OPPORTUNITY ANALYSIS:\<newline>'' @
     ''        '' @
     analysis_output @
     ''\<newline>'' @
     ''\<newline>'' @
     ''        Please create a detailed product blueprint with features, user journey, and differentiation.''"

definition technical_message :: "string \<Rightarrow> string" where
  "technical_message blueprint_output =
     ''Please conduct a technical feasibility assessment of the \<newline>'' @
     ''        following product blueprint for an AI-powered interview platform:\<newline>'' @
     ''\<newline>'' @
     ''        PRODUCT BLUEPRINT:\<newline>'' @
     ''        '' @
     blueprint_output @
     ''\<newline>'' @
     ''\<newline>'' @
     ''        Assess the technical feasibility, implementation requirements, and provide\<newline>'' @
     ''        recommendations for the technology stack and architecture.''"

definition review_message :: "string \<Rightarrow> string \<Rightarrow> string" where
  "review_message blueprint_output technical_output =
     ''Please review the following product blueprint and technical assessment,\<newline>'' @
     ''        then provide strategic recommendations, feasibility assessment, and next steps:\<newline>'' @
     ''\<newline>'' @
     ''        PRODUCT BLUEPRINT:\<newline>'' @
     ''        '' @
     blueprint_output @
     ''\<newline>'' @
     ''\<newline>'' @
     ''        TECHNICAL ASSESSMENT:\<newline>'' @
     ''        '' @
     technical_output @
     ''\<newline>'' @
     ''\<newline>'' @
     ''        Provide comprehensive review with actionable recommendations considering both\<newline>'' @
     ''        business strategy and technical feasibility.''"

subsection \<open>The phases\<close>

text \<open>
  A phase returns its output or the exception that ended it, and the world it leaves. The
  lookup \<open>self.agents_manager.agents[key]\<close> comes first and raises \<open>KeyError\<close> on a
  missing key; the store into \<open>self.outputs\<close> happens only after the call has returned.
\<close>

definition initiate_research_phase :: "workflow \<Rightarrow> world \<Rightarrow> (exn + string) \<times> world" where
  "initiate_research_phase self w =
     (case agents (agents_manager self) ''research'' of
        None \<Rightarrow> (Inl (KeyError ''research''), w)
      | Some system_message \<Rightarrow>
          (case chat_completion (agents_manager self) ''research''
                  [(''system'', system_message), (''user'', initial_message)]
                  (log (Render ''research'' []) w) of
             (Inl e, w') \<Rightarrow> (Inl (APIError e), w')
           | (Inr research_output, w') \<Rightarrow>
               (Inr research_output, set_output self ''research'' research_output w')))"

definition conduct_analysis_phase ::
  "workflow \<Rightarrow> string \<Rightarrow> world \<Rightarrow> (exn + string) \<times> world" where
  "conduct_analysis_phase self research_output w =
     (case agents (agents_manager self) ''analysis'' of
        None \<Rightarrow> (Inl (KeyError ''analysis''), w)
      | Some system_message \<Rightarrow>
          (case chat_completion (agents_manager self) ''analysis''
                  [(''system'', system_message), (''user'', analysis_message research_output)]
                  (log (Render ''analysis'' [research_output]) w) of
             (Inl e, w') \<Rightarrow> (Inl (APIError e), w')
           | (Inr analysis_output, w') \<Rightarrow>
               (Inr analysis_output, set_output self ''analysis'' analysis_output w')))"

definition create_blueprint_phase ::
  "workflow \<Rightarrow> string \<Rightarrow> string \<Rightarrow> world \<Rightarrow> (exn + string) \<times> world" where
  "create_blueprint_phase self research_output analysis_output w =
     (case agents (agents_manager self) ''blueprint'' of
        None \<Rightarrow> (Inl (KeyError ''blueprint''), w)
      | Some system_message \<Rightarrow>
          (case chat_completion (agents_manager self) ''blueprint''
                  [(''system'', system_message),
                   (''user'', blueprint_message research_output analysis_output)]
                  (log (Render ''blueprint'' [research_output, analysis_output]) w) of
             (Inl e, w') \<Rightarrow> (Inl (APIError e), w')
           | (Inr blueprint_output, w') \<Rightarrow>
               (Inr blueprint_output, set_output self ''blueprint'' blueprint_output w')))"

definition conduct_technical_assessment_phase ::
  "workflow \<Rightarrow> string \<Rightarrow> world \<Rightarrow> (exn + string) \<times> world" where
  "conduct_technical_assessment_phase self blueprint_output w =
     (case agents (agents_manager self) ''technical'' of
        None \<Rightarrow> (Inl (KeyError ''technical''), w)
      | Some system_message \<Rightarrow>
          (case chat_completion (agents_manager self) ''technical''
                  [(''system'', system_message), (''user'', technical_message blueprint_output)]
                  (log (Render ''technical'' [blueprint_output]) w) of
             (Inl e, w') \<Rightarrow> (Inl (APIError e), w')
           | (Inr technical_output, w') \<Rightarrow>
               (Inr technical_output, set_output self ''technical'' technical_output w')))"

definition conduct_review_phase ::
  "workflow \<Rightarrow> string \<Rightarrow> string \<Rightarrow> world \<Rightarrow> (exn + string) \<times> world" where
  "conduct_review_phase self blueprint_output technical_output w =
     (case agents (agents_manager self) ''reviewer'' of
        None \<Rightarrow> (Inl (KeyError ''reviewer''), w)
      | Some system_message \<Rightarrow>
          (case chat_completion (agents_manager self) ''review''
                  [(''system'', system_message),
                   (''user'', review_message blueprint_output technical_output)]
                  (log (Render ''review'' [blueprint_output, technical_output]) w) of
             (Inl e, w') \<Rightarrow> (Inl (APIError e), w')
           | (Inr review_output, w') \<Rightarrow>
               (Inr review_output, set_output self ''review'' review_output w')))"

subsection \<open>The workflow\<close>

text \<open>\<open>__init__\<close>: keeps the manager and allocates \<open>self.outputs = {}\<close>.\<close>

definition workflow_init :: "agents_manager \<Rightarrow> world \<Rightarrow> workflow \<times> world" where
  "workflow_init am w =
     (case new_dict w of (a, w') \<Rightarrow> (\<lparr>agents_manager = am, outputs = a\<rparr>, w'))"

text \<open>
  \<open>execute_workflow\<close>: the five phases in sequence; an exception of a phase ends the
  run there. The value returned is \<open>self.outputs\<close>, the reference.
\<close>

definition execute_workflow :: "workflow \<Rightarrow> world \<Rightarrow> (exn + addr) \<times> world" where
  "execute_workflow self w =
     (case initiate_research_phase self w of
        (Inl e, w1) \<Rightarrow> (Inl e, w1)
      | (Inr research_output, w1) \<Rightarrow>
     (case conduct_analysis_phase self research_output w1 of
        (Inl e, w2) \<Rightarrow> (Inl e, w2)
      | (Inr analysis_output, w2) \<Rightarrow>
     (case create_blueprint_phase self research_output analysis_output w2 of
        (Inl e, w3) \<Rightarrow> (Inl e, w3)
      | (Inr blueprint_output, w3) \<Rightarrow>
     (case conduct_technical_assessment_phase self blueprint_output w3 of
        (Inl e, w4) \<Rightarrow> (Inl e, w4)
      | (Inr technical_output, w4) \<Rightarrow>
     (case conduct_review_phase self blueprint_output technical_output w4 of
        (Inl e, w5) \<Rightarrow> (Inl e, w5)
      | (Inr review_output, w5) \<Rightarrow> (Inr (outputs self), w5))))))"

text \<open>The keys of \<open>self.outputs\<close>, in the order the phases store them.\<close>

definition stage_names :: "string list" where
  "stage_names = [''research'', ''analysis'', ''blueprint'', ''technical'', ''review'']"

subsection \<open>What \<open>main\<close> sets up\<close>

text \<open>
  \<open>main\<close> builds the manager, creates the five agents in this order, builds the workflow
  on the manager and executes it.
\<close>

definition initialize_agents :: "client \<Rightarrow> agents_manager" where
  "initialize_agents cl =
     snd (create_reviewer_agent
       (snd (create_technical_agent
         (snd (create_blueprint_agent
           (snd (create_analysis_agent
             (snd (create_research_agent (agents_manager_init cl))))))))))"

text \<open>The store before anything is allocated.\<close>

definition empty_world :: world where
  "empty_world = \<lparr>dicts = (\<lambda>a. Map.empty), next_addr = 0, trace = []\<rparr>"

text \<open>A client that answers its calls from a fixed script, one entry per call.\<close>

definition scripted :: "(api_error + string) list \<Rightarrow> client" where
  "scripted rs n messages = (if n < length rs then rs ! n else Inl FatalError)"

subsection \<open>Observations on a run\<close>

text \<open>The number of model calls a trace holds for one stage.\<close>

fun is_call_of :: "string \<Rightarrow> event \<Rightarrow> bool" where
  "is_call_of s (Call s' m) = (s' = s)"
| "is_call_of s (Render s' a) = False"
| "is_call_of s (Record s' out) = False"

definition attempts :: "string \<Rightarrow> event list \<Rightarrow> nat" where
  "attempts s evs = length (filter (is_call_of s) evs)"

text \<open>The outputs a trace stores, oldest first, each with its key.\<close>

fun recorded :: "event list \<Rightarrow> (string \<times> string) list" where
  "recorded [] = []"
| "recorded (Record s out # es) = (s, out) # recorded es"
| "recorded (Render s a # es) = recorded es"
| "recorded (Call s m # es) = recorded es"

text \<open>The messages of the model calls of a trace, oldest first.\<close>

fun calls :: "event list \<Rightarrow> message list list" where
  "calls [] = []"
| "calls (Call s m # es) = m # calls es"
| "calls (Render s a # es) = calls es"
| "calls (Record s out # es) = calls es"

text \<open>A failed call ends the run: nothing follows it, and the run fails with its error.\<close>

fun failed_call_is_last :: "client \<Rightarrow> nat \<Rightarrow> exn + addr \<Rightarrow> event list \<Rightarrow> bool" where
  "failed_call_is_last cl n res [] = True"
| "failed_call_is_last cl n res (Call s m # es) =
     ((case cl n m of Inl e \<Rightarrow> es = [] \<and> res = Inl (APIError e) | Inr out \<Rightarrow> True)
      \<and> failed_call_is_last cl (Suc n) res es)"
| "failed_call_is_last cl n res (Render s a # es) = failed_call_is_last cl n res es"
| "failed_call_is_last cl n res (Record s out # es) = failed_call_is_last cl n res es"

lemmas phase_defs = initiate_research_phase_def conduct_analysis_phase_def
  create_blueprint_phase_def conduct_technical_assessment_phase_def conduct_review_phase_def
  chat_completion_def set_output_def log_def dict_setitem_def

lemma n_calls_simps [simp]:
  "n_calls [] = 0"
  "n_calls (Call s m # es) = Suc (n_calls es)"
  "n_calls (Render s a # es) = n_calls es"
  "n_calls (Record s out # es) = n_calls es"
  "n_calls (xs @ ys) = n_calls xs + n_calls ys"
  by (simp_all add: n_calls_def)

lemma initialize_agents_lookup:
  "agents (initialize_agents cl) ''research'' = Some research_system_message"
  "agents (initialize_agents cl) ''analysis'' = Some analysis_system_message"
  "agents (initialize_agents cl) ''blueprint'' = Some blueprint_system_message"
  "agents (initialize_agents cl) ''technical'' = Some technical_system_message"
  "agents (initialize_agents cl) ''reviewer'' = Some reviewer_system_message"
  "client (initialize_agents cl) = cl"
  by (simp_all add: initialize_agents_def agents_manager_init_def create_research_agent_def
      create_analysis_agent_def create_blueprint_agent_def create_technical_agent_def
      create_reviewer_agent_def)

lemma workflow_init_empty:
  "workflow_init am empty_world =
     (\<lparr>agents_manager = am, outputs = 0\<rparr>,
      \<lparr>dicts = (\<lambda>a. Map.empty), next_addr = Suc 0, trace = []\<rparr>)"
  by (simp add: workflow_init_def new_dict_def empty_world_def fun_eq_iff)

subsection \<open>Retries\<close>

lemma failed_call_is_last_split:
  "failed_call_is_last cl n res (pre @ Call s m # post) \<Longrightarrow>
   cl (n + n_calls pre) m = Inl e \<Longrightarrow> post = [] \<and> res = Inl (APIError e)"
proof (induction pre arbitrary: n)
  case Nil
  then show ?case by simp
next
  case (Cons x pre)
  then show ?case by (cases x) auto
qed

lemma execute_workflow_calls:
  assumes "execute_workflow self w = (res, w')"
  shows "\<exists>evs. trace w' = trace w @ evs \<and>
     failed_call_is_last (client (agents_manager self)) (n_calls (trace w)) res evs \<and>
     (\<forall>s. attempts s evs \<le> 1)"
  using assms unfolding execute_workflow_def phase_defs attempts_def
  by (auto split: option.splits sum.splits prod.splits)

lemma attempts_at_call: "attempts s (pre @ Call s m # post) \<ge> 1"
  by (simp add: attempts_def)

definition flaky_script :: "(api_error + string) list" where
  "flaky_script = [Inl TransientError, Inr ''R1'', Inr ''A1'', Inr ''B1'', Inr ''T1'', Inr ''V1'']"

definition flaky_workflow :: workflow where
  "flaky_workflow = fst (workflow_init (initialize_agents (scripted flaky_script)) empty_world)"

definition flaky_world :: world where
  "flaky_world = snd (workflow_init (initialize_agents (scripted flaky_script)) empty_world)"

definition research_messages :: "message list" where
  "research_messages = [(''system'', research_system_message), (''user'', initial_message)]"

lemma flaky_simps:
  "agents_manager flaky_workflow = initialize_agents (scripted flaky_script)"
  "outputs flaky_workflow = 0"
  "trace flaky_world = []"
  by (simp_all add: flaky_workflow_def flaky_world_def workflow_init_empty)

lemma flaky_run:
  "execute_workflow flaky_workflow flaky_world =
     (Inl (APIError TransientError),
      flaky_world\<lparr>trace := [Render ''research'' [], Call ''research'' research_messages]\<rparr>)"
  by (simp add: execute_workflow_def phase_defs flaky_simps scripted_def flaky_script_def
      initialize_agents_lookup research_messages_def)

text \<open>
  Claim C1, as amended. The workflow has no retry. Whenever a model call of a run raises,
  whether the error is transient or fatal, nothing follows that call: the run fails with
  that error, the failing stage has had exactly one attempt, and no stage of the run has
  more than one. So no stage ever sees a second attempt, let alone a fourth.
\<close>

theorem failed_call_gets_no_second_attempt:
  assumes "execute_workflow self w = (res, w')"
    and "trace w' = trace w @ pre @ Call s m # post"
    and "client (agents_manager self) (n_calls (trace w @ pre)) m = Inl e"
  shows "post = [] \<and> res = Inl (APIError e) \<and> attempts s (pre @ Call s m # post) = 1
     \<and> attempts s' (pre @ Call s m # post) \<le> 1"
proof -
  from execute_workflow_calls[OF assms(1)] obtain evs where
    evs: "trace w' = trace w @ evs"
    and last: "failed_call_is_last (client (agents_manager self)) (n_calls (trace w)) res evs"
    and once: "\<forall>s. attempts s evs \<le> 1"
    by blast
  from evs assms(2) have eq: "evs = pre @ Call s m # post" by simp
  from assms(3) have "client (agents_manager self) (n_calls (trace w) + n_calls pre) m = Inl e"
    by simp
  with last eq have "post = [] \<and> res = Inl (APIError e)"
    using failed_call_is_last_split by blast
  moreover from once eq attempts_at_call[of s pre m post]
  have "attempts s (pre @ Call s m # post) = 1" 
    using le_antisym by blast
  moreover from once eq have "attempts s' (pre @ Call s m # post) \<le> 1" by blast
  ultimately show ?thesis by blast
qed

text \<open>
  The theorem at a run whose first model call fails with a transient error.
\<close>

theorem failed_call_gets_no_second_attempt_witness:
  "execute_workflow flaky_workflow flaky_world =
     (Inl (APIError TransientError),
      flaky_world\<lparr>trace := [Render ''research'' [], Call ''research'' research_messages]\<rparr>)
   \<and> client (agents_manager flaky_workflow)
        (n_calls (trace flaky_world @ [Render ''research'' []])) research_messages
      = Inl TransientError
   \<and> attempts ''research'' ([Render ''research'' []] @ Call ''research'' research_messages # []) = 1"
proof -
  have h2: "trace (flaky_world\<lparr>trace := [Render ''research'' [], Call ''research'' research_messages]\<rparr>)
      = trace flaky_world @ [Render ''research'' []] @ Call ''research'' research_messages # []"
    by (simp add: flaky_simps)
  have h3: "client (agents_manager flaky_workflow)
        (n_calls (trace flaky_world @ [Render ''research'' []])) research_messages
      = Inl TransientError"
    by (simp add: flaky_simps initialize_agents_lookup scripted_def flaky_script_def)
  from failed_call_gets_no_second_attempt[OF flaky_run h2 h3] flaky_run h3
  show ?thesis by blast
qed

text \<open>
  Claim C1 as stated fails. The first call of the research stage raises a transient error,
  a second call would have been answered, and the run still fails having made that one
  call only.
\<close>

theorem transient_failure_is_not_retried:
  "scripted flaky_script 0 research_messages = Inl TransientError
   \<and> scripted flaky_script 1 research_messages = Inr ''R1''
   \<and> fst (execute_workflow flaky_workflow flaky_world) = Inl (APIError TransientError)
   \<and> calls (trace (snd (execute_workflow flaky_workflow flaky_world))) = [research_messages]"
  by (simp add: flaky_run scripted_def flaky_script_def flaky_simps)

subsection \<open>A run in which every call is answered\<close>

definition analysis_messages :: "string \<Rightarrow> message list" where
  "analysis_messages r = [(''system'', analysis_system_message), (''user'', analysis_message r)]"

definition blueprint_messages :: "string \<Rightarrow> string \<Rightarrow> message list" where
  "blueprint_messages r a =
     [(''system'', blueprint_system_message), (''user'', blueprint_message r a)]"

definition technical_messages :: "string \<Rightarrow> message list" where
  "technical_messages b =
     [(''system'', technical_system_message), (''user'', technical_message b)]"

definition review_messages :: "string \<Rightarrow> string \<Rightarrow> message list" where
  "review_messages b t = [(''system'', reviewer_system_message), (''user'', review_message b t)]"

definition demo_script :: "(api_error + string) list" where
  "demo_script = [Inr ''R1'', Inr ''A1'', Inr ''B1'', Inr ''T1'', Inr ''V1'']"

definition demo_workflow :: workflow where
  "demo_workflow = fst (workflow_init (initialize_agents (scripted demo_script)) empty_world)"

definition demo_world :: world where
  "demo_world = snd (workflow_init (initialize_agents (scripted demo_script)) empty_world)"

definition demo_trace :: "event list" where
  "demo_trace =
     [Render ''research'' [], Call ''research'' research_messages,
      Record ''research'' ''R1'',
      Render ''analysis'' [''R1''], Call ''analysis'' (analysis_messages ''R1''),
      Record ''analysis'' ''A1'',
      Render ''blueprint'' [''R1'', ''A1''], Call ''blueprint'' (blueprint_messages ''R1'' ''A1''),
      Record ''blueprint'' ''B1'',
      Render ''technical'' [''B1''], Call ''technical'' (technical_messages ''B1''),
      Record ''technical'' ''T1'',
      Render ''review'' [''B1'', ''T1''], Call ''review'' (review_messages ''B1'' ''T1''),
      Record ''review'' ''V1'']"

definition demo_final :: world where
  "demo_final =
     \<lparr>dicts = (\<lambda>a. Map.empty)(0 := [''research'' \<mapsto> ''R1'', ''analysis'' \<mapsto> ''A1'',
          ''blueprint'' \<mapsto> ''B1'', ''technical'' \<mapsto> ''T1'', ''review'' \<mapsto> ''V1'']),
      next_addr = Suc 0, trace = demo_trace\<rparr>"

lemma demo_simps:
  "agents_manager demo_workflow = initialize_agents (scripted demo_script)"
  "outputs demo_workflow = 0"
  "trace demo_world = []"
  "next_addr demo_world = Suc 0"
  "dicts demo_world = (\<lambda>a. Map.empty)"
  by (simp_all add: demo_workflow_def demo_world_def workflow_init_empty)

lemma demo_run: "execute_workflow demo_workflow demo_world = (Inr 0, demo_final)"
  by (simp add: demo_final_def execute_workflow_def phase_defs demo_simps scripted_def demo_script_def
      initialize_agents_lookup research_messages_def analysis_messages_def
      blueprint_messages_def technical_messages_def review_messages_def demo_trace_def)

subsection \<open>Order of the stages\<close>

fun pred_in :: "string list \<Rightarrow> string \<Rightarrow> string option" where
  "pred_in (a # b # xs) s = (if s = b then Some a else pred_in (b # xs) s)"
| "pred_in xs s = None"

definition pred_ok :: "string list \<Rightarrow> string \<Rightarrow> bool" where
  "pred_ok rec s = (case pred_in stage_names s of None \<Rightarrow> True | Some p \<Rightarrow> p \<in> set rec)"

fun ordered :: "string list \<Rightarrow> event list \<Rightarrow> bool" where
  "ordered rec [] = True"
| "ordered rec (Render s a # es) = (pred_ok rec s \<and> ordered rec es)"
| "ordered rec (Call s m # es) = (pred_ok rec s \<and> ordered rec es)"
| "ordered rec (Record s out # es) = ordered (s # rec) es"

fun stored :: "pydict \<Rightarrow> event \<Rightarrow> bool" where
  "stored d (Record s out) = (d s = Some out)"
| "stored d (Render s a) = True"
| "stored d (Call s m) = True"

lemma pred_ok_simps:
  "pred_ok rec ''research''"
  "pred_ok rec ''analysis'' = (''research'' \<in> set rec)"
  "pred_ok rec ''blueprint'' = (''analysis'' \<in> set rec)"
  "pred_ok rec ''technical'' = (''blueprint'' \<in> set rec)"
  "pred_ok rec ''review'' = (''technical'' \<in> set rec)"
  by (simp_all add: pred_ok_def stage_names_def)

lemma less_4_cases: "i < 4 \<Longrightarrow> i = 0 \<or> i = Suc 0 \<or> i = Suc (Suc 0) \<or> i = Suc (Suc (Suc 0))"
  by arith

lemma pred_in_stage_names:
  "i < 4 \<Longrightarrow> pred_in stage_names (stage_names ! Suc i) = Some (stage_names ! i)"
  by (drule less_4_cases) (auto simp: stage_names_def)

lemma execute_workflow_ordered:
  assumes "execute_workflow self w = (res, w')"
  shows "\<exists>evs. trace w' = trace w @ evs \<and> ordered [] evs \<and>
           list_all (stored (dicts w' (outputs self))) evs"
  using assms unfolding execute_workflow_def phase_defs
  by (auto split: option.splits sum.splits prod.splits simp: pred_ok_simps)

lemma ordered_split:
  "ordered rec (pre @ e # post) \<Longrightarrow> e = Render s a \<or> e = Call s m \<Longrightarrow>
   pred_in stage_names s = Some p \<Longrightarrow> p \<in> set rec \<or> (\<exists>out. Record p out \<in> set pre)"
proof (induction pre arbitrary: rec)
  case Nil
  then show ?case by (auto simp: pred_ok_def)
next
  case (Cons x pre)
  show ?case
  proof (cases x)
    case (Record s' out')
    with Cons.prems have "ordered (s' # rec) (pre @ e # post)" by simp
    from Cons.IH[OF this Cons.prems(2,3)] Record show ?thesis by auto
  next
    case (Render s' a')
    with Cons.prems have "ordered rec (pre @ e # post)" by simp
    from Cons.IH[OF this Cons.prems(2,3)] show ?thesis by auto
  next
    case (Call s' m')
    with Cons.prems have "ordered rec (pre @ e # post)" by simp
    from Cons.IH[OF this Cons.prems(2,3)] show ?thesis by auto
  qed
qed

text \<open>
  Claim C2. In every run, failed or not, an event in which stage \<open>i + 1\<close> renders its
  prompt or calls the model comes after the event in which the output of stage \<open>i\<close>
  was stored in \<open>self.outputs\<close>, and that output is the one the mapping holds when the
  run ends.
\<close>

theorem next_stage_waits_for_recorded_output:
  assumes "execute_workflow self w = (res, w')"
    and "trace w' = trace w @ pre @ e # post"
    and "e = Render (stage_names ! Suc i) args \<or> e = Call (stage_names ! Suc i) msgs"
    and "i < 4"
  shows "\<exists>out. Record (stage_names ! i) out \<in> set pre \<and>
           dicts w' (outputs self) (stage_names ! i) = Some out"
proof -
  from execute_workflow_ordered[OF assms(1)] obtain evs where
    evs: "trace w' = trace w @ evs" and ord: "ordered [] evs"
    and st: "list_all (stored (dicts w' (outputs self))) evs"
    by blast
  from evs assms(2) have eq: "evs = pre @ e # post" by simp
  from ordered_split[OF ord[unfolded eq] assms(3) pred_in_stage_names[OF assms(4)]]
  obtain out where out: "Record (stage_names ! i) out \<in> set pre" by auto
  from out eq have "Record (stage_names ! i) out \<in> set evs" by simp
  with st have "stored (dicts w' (outputs self)) (Record (stage_names ! i) out)"
    unfolding list_all_iff by blast
  with out show ?thesis by auto
qed

text \<open>
  The theorem at the analysis stage of the run in which every call is answered.
\<close>

theorem next_stage_waits_for_recorded_output_witness:
  "execute_workflow demo_workflow demo_world = (Inr 0, demo_final)
   \<and> trace demo_final =
       trace demo_world @ take 3 demo_trace @ Render (stage_names ! Suc 0) [''R1''] # drop 4 demo_trace
   \<and> (0::nat) < 4
   \<and> (\<exists>out. Record (stage_names ! 0) out \<in> set (take 3 demo_trace) \<and>
         dicts demo_final (outputs demo_workflow) (stage_names ! 0) = Some out)"
proof -
  have h2: "trace demo_final =
       trace demo_world @ take 3 demo_trace @ Render (stage_names ! Suc 0) [''R1''] # drop 4 demo_trace"
    by (simp add: demo_final_def demo_simps demo_trace_def stage_names_def)
  have h3: "Render (stage_names ! Suc 0) [''R1''] = Render (stage_names ! Suc 0) [''R1'']
      \<or> Render (stage_names ! Suc 0) [''R1''] = Call (stage_names ! Suc 0) []" by simp
  have h4: "(0::nat) < 4" by simp
  from next_stage_waits_for_recorded_output[OF demo_run h2 h3 h4] demo_run h2 h4
  show ?thesis by blast
qed

subsection \<open>A completed run\<close>

lemma all_less_5:
  "(\<forall>k<5. P k) =
     (P 0 \<and> P (Suc 0) \<and> P (Suc (Suc 0)) \<and> P (Suc (Suc (Suc 0))) \<and> P (Suc (Suc (Suc (Suc 0)))))"
proof -
  have "\<And>k::nat. k < 5 \<longleftrightarrow> k = 0 \<or> k = Suc 0 \<or> k = Suc (Suc 0) \<or> k = Suc (Suc (Suc 0))
      \<or> k = Suc (Suc (Suc (Suc 0)))" by arith
  then show ?thesis by auto
qed

text \<open>
  Claim C4, as amended. A run that raises nothing returns the reference to
  \<open>self.outputs\<close>; it has made exactly five model calls, every one answered, before it
  returns; and the mapping holds, under each of the five stage names, exactly the text
  the model returned to that stage's call. Nothing checks that the text is non-empty.
\<close>

theorem completed_run_holds_every_reply:
  assumes "execute_workflow self w = (Inr a, w')"
  shows "a = outputs self \<and>
     (\<exists>evs. trace w' = trace w @ evs \<and> length (calls evs) = 5 \<and>
        map fst (recorded evs) = stage_names \<and>
        (\<forall>k<5. client (agents_manager self) (n_calls (trace w) + k) (calls evs ! k)
                  = Inr (snd (recorded evs ! k)) \<and>
               dicts w' a (stage_names ! k) = Some (snd (recorded evs ! k))))"
  using assms unfolding execute_workflow_def phase_defs all_less_5 stage_names_def
  by (auto split: option.splits sum.splits prod.splits)

text \<open>
  The theorem at the run in which every call is answered, read at the analysis stage.
\<close>

theorem completed_run_holds_every_reply_witness:
  "execute_workflow demo_workflow demo_world = (Inr 0, demo_final) \<and>
   0 = outputs demo_workflow \<and>
     (\<exists>evs. trace demo_final = trace demo_world @ evs \<and> length (calls evs) = 5 \<and>
        map fst (recorded evs) = stage_names \<and>
        client (agents_manager demo_workflow) (n_calls (trace demo_world) + 1) (calls evs ! 1)
                  = Inr (snd (recorded evs ! 1)) \<and>
        dicts demo_final 0 (stage_names ! 1) = Some (snd (recorded evs ! 1)))"
proof -
  have "(1::nat) < 5" by simp
  with completed_run_holds_every_reply[OF demo_run] demo_run
  show ?thesis by blast
qed

definition terse_script :: "(api_error + string) list" where
  "terse_script = [Inr ''R1'', Inr [], Inr ''B1'', Inr ''T1'', Inr ''V1'']"

definition terse_workflow :: workflow where
  "terse_workflow = fst (workflow_init (initialize_agents (scripted terse_script)) empty_world)"

definition terse_world :: world where
  "terse_world = snd (workflow_init (initialize_agents (scripted terse_script)) empty_world)"

lemma terse_simps:
  "agents_manager terse_workflow = initialize_agents (scripted terse_script)"
  "outputs terse_workflow = 0"
  "trace terse_world = []"
  "dicts terse_world = (\<lambda>a. Map.empty)"
  by (simp_all add: terse_workflow_def terse_world_def workflow_init_empty)

text \<open>
  Claim C4 as stated fails. The model answers the analysis stage with the empty string;
  the run completes without an error and the mapping holds the empty string for that
  stage.
\<close>

theorem empty_reply_is_stored_as_output:
  "fst (execute_workflow terse_workflow terse_world) = Inr 0 \<and>
   dicts (snd (execute_workflow terse_workflow terse_world)) 0 ''analysis'' = Some []"
  by (simp add: execute_workflow_def phase_defs terse_simps scripted_def terse_script_def
      initialize_agents_lookup)

subsection \<open>What a stage renders from\<close>

text \<open>
  The stages whose outputs \<open>execute_workflow\<close> hands to each phase method, in the order
  of the parameters.
\<close>

definition render_inputs :: "string \<Rightarrow> string list" where
  "render_inputs s =
     (if s = ''research'' then []
      else if s = ''analysis'' then [''research'']
      else if s = ''blueprint'' then [''research'', ''analysis'']
      else if s = ''technical'' then [''blueprint'']
      else if s = ''review'' then [''blueprint'', ''technical'']
      else [])"

definition render_check :: "(string \<times> string) list \<Rightarrow> string \<Rightarrow> string list \<Rightarrow> bool" where
  "render_check rec s args =
     (s \<in> set stage_names \<and>
      map fst rec = takeWhile (\<lambda>t. t \<noteq> s) stage_names \<and>
      list_all2 (\<lambda>t a. map_of rec t = Some a) (render_inputs s) args)"

fun renders_ok :: "(string \<times> string) list \<Rightarrow> event list \<Rightarrow> bool" where
  "renders_ok rec [] = True"
| "renders_ok rec (Render s args # es) = (render_check rec s args \<and> renders_ok rec es)"
| "renders_ok rec (Record s out # es) = renders_ok (rec @ [(s, out)]) es"
| "renders_ok rec (Call s m # es) = renders_ok rec es"

lemma renders_ok_split:
  "renders_ok rec (pre @ Render s args # post) \<Longrightarrow> render_check (rec @ recorded pre) s args"
proof (induction pre arbitrary: rec)
  case Nil
  then show ?case by simp
next
  case (Cons x pre)
  show ?case
  proof (cases x)
    case (Record s' out')
    with Cons.prems have "renders_ok (rec @ [(s', out')]) (pre @ Render s args # post)" by simp
    from Cons.IH[OF this] Record show ?thesis by simp
  next
    case (Render s' a')
    with Cons.prems have "renders_ok rec (pre @ Render s args # post)" by simp
    from Cons.IH[OF this] Render show ?thesis by simp
  next
    case (Call s' m')
    with Cons.prems have "renders_ok rec (pre @ Render s args # post)" by simp
    from Cons.IH[OF this] Call show ?thesis by simp
  qed
qed

lemma execute_workflow_renders:
  assumes "execute_workflow self w = (res, w')"
  shows "\<exists>evs. trace w' = trace w @ evs \<and> renders_ok [] evs"
  using assms unfolding execute_workflow_def phase_defs
  by (auto split: option.splits sum.splits prod.splits
      simp: render_check_def render_inputs_def stage_names_def)

text \<open>
  Claim C5, as amended. When a stage renders its prompt, the outputs stored so far in the
  run are those of the stages declared before it, in order, and nothing of the stage itself
  or of a later one. The stage is handed the stored outputs of the stages
  \<open>render_inputs\<close> names, which are earlier stages but not all of them.
\<close>

theorem render_gets_selected_earlier_outputs:
  assumes "execute_workflow self w = (res, w')"
    and "trace w' = trace w @ pre @ Render s args # post"
  shows "s \<in> set stage_names \<and>
     map fst (recorded pre) = takeWhile (\<lambda>t. t \<noteq> s) stage_names \<and>
     list_all2 (\<lambda>t a. map_of (recorded pre) t = Some a) (render_inputs s) args"
proof -
  from execute_workflow_renders[OF assms(1)] obtain evs where
    evs: "trace w' = trace w @ evs" and ok: "renders_ok [] evs"
    by blast
  from evs assms(2) have "evs = pre @ Render s args # post" by simp
  with ok have "render_check ([] @ recorded pre) s args"
    using renders_ok_split by blast
  then show ?thesis by (simp add: render_check_def)
qed

text \<open>
  The theorem at the technical stage of the run in which every call is answered.
\<close>

theorem render_gets_selected_earlier_outputs_witness:
  "execute_workflow demo_workflow demo_world = (Inr 0, demo_final) \<and>
   trace demo_final =
     trace demo_world @ take 9 demo_trace @ Render ''technical'' [''B1''] # drop 10 demo_trace \<and>
   ''technical'' \<in> set stage_names \<and>
   map fst (recorded (take 9 demo_trace)) = takeWhile (\<lambda>t. t \<noteq> ''technical'') stage_names \<and>
   list_all2 (\<lambda>t a. map_of (recorded (take 9 demo_trace)) t = Some a)
     (render_inputs ''technical'') [''B1'']"
proof -
  have h2: "trace demo_final =
     trace demo_world @ take 9 demo_trace @ Render ''technical'' [''B1''] # drop 10 demo_trace"
    by (simp add: demo_final_def demo_simps demo_trace_def)
  from render_gets_selected_earlier_outputs[OF demo_run h2] demo_run h2
  show ?thesis by blast
qed

text \<open>
  Claim C5 as stated fails. When the technical stage renders, the outputs of research,
  analysis and blueprint are stored, and the stage is handed the blueprint output alone.
\<close>

theorem technical_stage_renders_from_blueprint_alone:
  "recorded (take 9 (trace (snd (execute_workflow demo_workflow demo_world)))) =
     [(''research'', ''R1''), (''analysis'', ''A1''), (''blueprint'', ''B1'')] \<and>
   trace (snd (execute_workflow demo_workflow demo_world)) ! 9 = Render ''technical'' [''B1'']"
  by (simp add: demo_run demo_final_def demo_trace_def)

subsection \<open>Two runs\<close>

text \<open>
  Whatever a program does to a dictionary it holds a reference to, the store afterwards
  has some dictionary at that address and is otherwise unchanged.
\<close>

definition dict_mutate :: "addr \<Rightarrow> pydict \<Rightarrow> world \<Rightarrow> world" where
  "dict_mutate a d w = w\<lparr>dicts := (dicts w)(a := d)\<rparr>"

lemma workflow_init_fresh:
  assumes "workflow_init am w = (self, w')"
  shows "outputs self = next_addr w" and "next_addr w' = Suc (next_addr w)"
    and "agents_manager self = am" and "b \<noteq> next_addr w \<Longrightarrow> dicts w' b = dicts w b"
    and "dicts w' (next_addr w) = Map.empty"
  using assms by (auto simp: workflow_init_def new_dict_def)

lemma execute_workflow_frame:
  assumes "execute_workflow self w = (res, w')"
  shows "next_addr w' = next_addr w \<and> (\<forall>b. b \<noteq> outputs self \<longrightarrow> dicts w' b = dicts w b)"
  using assms unfolding execute_workflow_def phase_defs
  by (auto split: option.splits sum.splits prod.splits)

text \<open>
  Claim C7, as amended. Two runs, each on a workflow object of its own (\<open>__init__\<close>
  then \<open>execute_workflow\<close>, as \<open>main\<close> does), have their outputs at different
  addresses: the second run leaves the outputs of the first as they were, and whatever
  is done to the mapping of one leaves the mapping of the other unchanged.
\<close>

theorem runs_of_separate_workflows_share_no_outputs:
  assumes "workflow_init am1 w0 = (wf1, w1)"
    and "execute_workflow wf1 w1 = (r1, w2)"
    and "workflow_init am2 w2 = (wf2, w3)"
    and "execute_workflow wf2 w3 = (r2, w4)"
  shows "outputs wf1 \<noteq> outputs wf2 \<and>
     dicts w4 (outputs wf1) = dicts w2 (outputs wf1) \<and>
     dicts (dict_mutate (outputs wf1) d w4) (outputs wf2) = dicts w4 (outputs wf2) \<and>
     dicts (dict_mutate (outputs wf2) d w4) (outputs wf1) = dicts w4 (outputs wf1)"
proof -
  have a1: "outputs wf1 = next_addr w0" and n1: "next_addr w1 = Suc (next_addr w0)"
    using workflow_init_fresh[OF assms(1)] by simp_all
  have n2: "next_addr w2 = next_addr w1"
    using execute_workflow_frame[OF assms(2)] by simp
  have a2: "outputs wf2 = next_addr w2"
    using workflow_init_fresh[OF assms(3)] by simp
  from a1 n1 n2 a2 have ne: "outputs wf1 \<noteq> outputs wf2" by simp
  have "dicts w3 (outputs wf1) = dicts w2 (outputs wf1)"
    using workflow_init_fresh(4)[OF assms(3), of "outputs wf1"] ne a2 by simp
  moreover have "dicts w4 (outputs wf1) = dicts w3 (outputs wf1)"
    using execute_workflow_frame[OF assms(4)] ne by simp
  ultimately have "dicts w4 (outputs wf1) = dicts w2 (outputs wf1)" by simp
  with ne show ?thesis by (simp add: dict_mutate_def)
qed

definition rerun_script :: "(api_error + string) list" where
  "rerun_script = [Inr ''R1'', Inr ''A1'', Inr ''B1'', Inr ''T1'', Inr ''V1'',
                   Inr ''R2'', Inr ''A2'', Inr ''B2'', Inr ''T2'', Inr ''V2'']"

definition rerun_workflow :: workflow where
  "rerun_workflow = fst (workflow_init (initialize_agents (scripted rerun_script)) empty_world)"

definition rerun_world :: world where
  "rerun_world = snd (workflow_init (initialize_agents (scripted rerun_script)) empty_world)"

definition rerun_world_1 :: world where
  "rerun_world_1 = snd (execute_workflow rerun_workflow rerun_world)"

definition second_workflow :: workflow where
  "second_workflow = fst (workflow_init (initialize_agents (scripted rerun_script)) rerun_world_1)"

definition second_world :: world where
  "second_world = snd (workflow_init (initialize_agents (scripted rerun_script)) rerun_world_1)"

lemma rerun_simps:
  "agents_manager rerun_workflow = initialize_agents (scripted rerun_script)"
  "outputs rerun_workflow = 0"
  "trace rerun_world = []"
  "dicts rerun_world = (\<lambda>a. Map.empty)"
  "next_addr rerun_world = Suc 0"
  by (simp_all add: rerun_workflow_def rerun_world_def workflow_init_empty)

lemma rerun_first:
  "fst (execute_workflow rerun_workflow rerun_world) = Inr 0"
  "n_calls (trace rerun_world_1) = 5"
  "dicts rerun_world_1 0 ''research'' = Some ''R1''"
  "next_addr rerun_world_1 = Suc 0"
  by (simp_all add: rerun_world_1_def execute_workflow_def phase_defs rerun_simps scripted_def
      rerun_script_def initialize_agents_lookup)

text \<open>
  Claim C7 as stated fails when the two runs are two calls of \<open>execute_workflow\<close> on
  one workflow object: both return the reference held in \<open>self.outputs\<close>, and the
  second run overwrites what the first had stored.
\<close>

theorem second_run_of_a_workflow_returns_the_same_mapping:
  "fst (execute_workflow rerun_workflow rerun_world) = Inr 0 \<and>
   dicts rerun_world_1 0 ''research'' = Some ''R1'' \<and>
   fst (execute_workflow rerun_workflow rerun_world_1) = Inr 0 \<and>
   dicts (snd (execute_workflow rerun_workflow rerun_world_1)) 0 ''research'' = Some ''R2''"
  by (simp add: rerun_first execute_workflow_def phase_defs rerun_simps scripted_def
      rerun_script_def initialize_agents_lookup)

text \<open>
  The theorem at two workflows built one after the other on the same agents; the
  mutation empties the first mapping.
\<close>

theorem runs_of_separate_workflows_share_no_outputs_witness:
  "workflow_init (initialize_agents (scripted rerun_script)) empty_world
     = (rerun_workflow, rerun_world) \<and>
   execute_workflow rerun_workflow rerun_world = (Inr 0, rerun_world_1) \<and>
   workflow_init (initialize_agents (scripted rerun_script)) rerun_world_1
     = (second_workflow, second_world) \<and>
   outputs rerun_workflow = 0 \<and> outputs second_workflow = 1 \<and>
   dicts (snd (execute_workflow second_workflow second_world)) (outputs rerun_workflow)
     = dicts rerun_world_1 (outputs rerun_workflow) \<and>
   dicts (dict_mutate (outputs rerun_workflow) Map.empty
            (snd (execute_workflow second_workflow second_world))) (outputs second_workflow)
     = dicts (snd (execute_workflow second_workflow second_world)) (outputs second_workflow)"
proof -
  have h1: "workflow_init (initialize_agents (scripted rerun_script)) empty_world
     = (rerun_workflow, rerun_world)"
    by (simp add: rerun_workflow_def rerun_world_def)
  have h2: "execute_workflow rerun_workflow rerun_world = (Inr 0, rerun_world_1)"
    using rerun_first(1) by (simp add: rerun_world_1_def prod_eq_iff)
  have h3: "workflow_init (initialize_agents (scripted rerun_script)) rerun_world_1
     = (second_workflow, second_world)"
    by (simp add: second_workflow_def second_world_def)
  have h4: "execute_workflow second_workflow second_world =
     (fst (execute_workflow second_workflow second_world),
      snd (execute_workflow second_workflow second_world))" by simp
  have o2: "outputs second_workflow = 1"
    using workflow_init_fresh(1)[OF h3] by (simp add: rerun_first)
  from runs_of_separate_workflows_share_no_outputs[OF h1 h2 h3 h4, of Map.empty]
    h1 h2 h3 o2 rerun_simps(2)
  show ?thesis by blast
qed

subsection \<open>The analysis prompt\<close>

text \<open>
  What a trace must look like for the analysis stage to have been given the research
  output: every call of the analysis stage carries a system message and, as its user
  message, the analysis template filled with the research output stored last.
\<close>

fun analysis_calls_embed :: "string option \<Rightarrow> event list \<Rightarrow> bool" where
  "analysis_calls_embed r [] = True"
| "analysis_calls_embed r (Record s out # es) =
     analysis_calls_embed (if s = ''research'' then Some out else r) es"
| "analysis_calls_embed r (Call s m # es) =
     ((if s = ''analysis''
       then (case r of None \<Rightarrow> False
             | Some x \<Rightarrow> length m = 2 \<and> fst (m ! 0) = ''system'' \<and>
                 m ! 1 = (''user'', analysis_message x))
       else True)
      \<and> analysis_calls_embed r es)"
| "analysis_calls_embed r (Render s a # es) = analysis_calls_embed r es"

lemma analysis_message_embeds: "sublist s (analysis_message s)"
  unfolding analysis_message_def
  by (intro sublist_order.order_trans[OF _ sublist_append_leftI] sublist_append_rightI)

lemma analysis_calls_embed_split:
  "analysis_calls_embed r (pre @ Call ''analysis'' m # post) \<Longrightarrow>
   \<exists>x. (r = Some x \<or> Record ''research'' x \<in> set pre) \<and>
       length m = 2 \<and> fst (m ! 0) = ''system'' \<and> m ! 1 = (''user'', analysis_message x)"
proof (induction pre arbitrary: r)
  case Nil
  then show ?case by (cases r) auto
next
  case (Cons e pre)
  show ?case
  proof (cases e)
    case (Record s' out')
    with Cons.prems have
      "analysis_calls_embed (if s' = ''research'' then Some out' else r)
         (pre @ Call ''analysis'' m # post)" by simp
    from Cons.IH[OF this] Record show ?thesis by (auto split: if_splits)
  next
    case (Render s' a')
    with Cons.prems have "analysis_calls_embed r (pre @ Call ''analysis'' m # post)" by simp
    from Cons.IH[OF this] show ?thesis by auto
  next
    case (Call s' m')
    with Cons.prems have "analysis_calls_embed r (pre @ Call ''analysis'' m # post)" by simp
    from Cons.IH[OF this] show ?thesis by auto
  qed
qed

lemma execute_workflow_analysis_calls:
  assumes "execute_workflow self w = (res, w')"
  shows "\<exists>evs. trace w' = trace w @ evs \<and> analysis_calls_embed None evs"
  using assms unfolding execute_workflow_def phase_defs
  by (auto split: option.splits sum.splits prod.splits)

lemma conduct_analysis_phase_call:
  assumes "agents (agents_manager self) ''analysis'' = Some sys"
  shows "calls (trace (snd (conduct_analysis_phase self s w))) =
           calls (trace w) @ [[(''system'', sys), (''user'', analysis_message s)]]"
proof -
  have c: "\<And>xs ys. calls (xs @ ys) = calls xs @ calls ys"
  proof -
    fix xs ys show "calls (xs @ ys) = calls xs @ calls ys"
      by (induction xs rule: calls.induct) simp_all
  qed
  show ?thesis using assms
    by (auto simp: conduct_analysis_phase_def chat_completion_def set_output_def log_def
        dict_setitem_def c split: sum.splits prod.splits)
qed

text \<open>
  Claim C8. For every research output \<open>s\<close>: when the analysis agent is registered,
  \<open>conduct_analysis_phase\<close> called with \<open>s\<close> makes exactly one model call, and the
  user message of that call contains \<open>s\<close> as a contiguous substring. In a run of the
  workflow, the user message of the analysis stage's call contains, in the same way, the
  output the run has stored for the research stage.
\<close>

theorem analysis_stage_sends_prompt_containing_research_output:
  "(agents (agents_manager self) ''analysis'' = Some sys \<longrightarrow>
      (\<exists>u. calls (trace (snd (conduct_analysis_phase self s w))) =
             calls (trace w) @ [[(''system'', sys), (''user'', u)]] \<and> sublist s u)) \<and>
   (execute_workflow self w = (res, w') \<and>
    trace w' = trace w @ pre @ Call ''analysis'' msgs # post \<longrightarrow>
      (\<exists>r u. Record ''research'' r \<in> set pre \<and> length msgs = 2 \<and>
             fst (msgs ! 0) = ''system'' \<and> msgs ! 1 = (''user'', u) \<and> sublist r u))"
proof (intro conjI impI)
  assume "agents (agents_manager self) ''analysis'' = Some sys"
  from conduct_analysis_phase_call[OF this, of s w] analysis_message_embeds[of s]
  show "\<exists>u. calls (trace (snd (conduct_analysis_phase self s w))) =
             calls (trace w) @ [[(''system'', sys), (''user'', u)]] \<and> sublist s u"
    by blast
next
  assume a: "execute_workflow self w = (res, w') \<and>
    trace w' = trace w @ pre @ Call ''analysis'' msgs # post"
  from execute_workflow_analysis_calls[of self w res w'] a obtain evs where
    evs: "trace w' = trace w @ evs" and ok: "analysis_calls_embed None evs" by blast
  from evs a have "evs = pre @ Call ''analysis'' msgs # post" by simp
  with ok have "analysis_calls_embed None (pre @ Call ''analysis'' msgs # post)" by simp
  from analysis_calls_embed_split[OF this] obtain x where
    x: "Record ''research'' x \<in> set pre" "length msgs = 2" "fst (msgs ! 0) = ''system''"
       "msgs ! 1 = (''user'', analysis_message x)" by auto
  with analysis_message_embeds[of x]
  show "\<exists>r u. Record ''research'' r \<in> set pre \<and> length msgs = 2 \<and>
             fst (msgs ! 0) = ''system'' \<and> msgs ! 1 = (''user'', u) \<and> sublist r u"
    by blast
qed

text \<open>
  The theorem at the run in which every call is answered: the analysis phase on the
  output \<open>R1\<close>, and the analysis call of the whole run.
\<close>

theorem analysis_stage_sends_prompt_containing_research_output_witness:
  "agents (agents_manager demo_workflow) ''analysis'' = Some analysis_system_message \<and>
   (\<exists>u. calls (trace (snd (conduct_analysis_phase demo_workflow ''R1'' demo_world))) =
          calls (trace demo_world) @ [[(''system'', analysis_system_message), (''user'', u)]] \<and>
        sublist ''R1'' u) \<and>
   execute_workflow demo_workflow demo_world = (Inr 0, demo_final) \<and>
   trace demo_final =
     trace demo_world @ take 4 demo_trace @
       Call ''analysis'' (analysis_messages ''R1'') # drop 5 demo_trace \<and>
   (\<exists>r u. Record ''research'' r \<in> set (take 4 demo_trace) \<and>
          analysis_messages ''R1'' ! 1 = (''user'', u) \<and> sublist r u)"
proof -
  have h1: "agents (agents_manager demo_workflow) ''analysis'' = Some analysis_system_message"
    by (simp add: demo_simps initialize_agents_lookup)
  have h2: "trace demo_final =
     trace demo_world @ take 4 demo_trace @
       Call ''analysis'' (analysis_messages ''R1'') # drop 5 demo_trace"
    by (simp add: demo_final_def demo_simps demo_trace_def)
  from analysis_stage_sends_prompt_containing_research_output[of demo_workflow
      analysis_system_message "''R1''" demo_world "Inr 0" demo_final "take 4 demo_trace"
      "analysis_messages ''R1''" "drop 5 demo_trace"] h1 h2 demo_run
  show ?thesis by blast
qed

section \<open>Saving the outputs (\<open>OutputManager\<close>)\<close>














section \<open>The travel-planning script (crewai/crewai_demo.py)\<close>

subsection \<open>The tools\<close>

text \<open>
  Each tool is a Python function from strings to a string. A function of the script can
  reach the network (the module imports \<open>requests\<close>), so a tool is modelled with the
  log of the requests made so far as its state: it takes the log and returns it with its
  result. Each body builds a \<open>search_query\<close> that it never uses and returns an f-string;
  the fixed text before the first argument and after the last is named \<open>_head\<close> and
  \<open>_tail\<close>.
\<close>

type_synonym network = "string list"

definition search_flight_prices_head :: string where
  "search_flight_prices_head =
     ''\<newline>'' @
     ''    Research task: Find flights from ''"

definition search_flight_prices_tail :: string where
  "search_flight_prices_tail =
     ''.\<newline>'' @
     ''\<newline>'' @
     ''    Please research and provide:\<newline>'' @
     ''    1. Current flight options with prices (check Kayak, Skyscanner, Google Flights)\<newline>'' @
     ''    2. Airlines operating these routes\<newline>'' @
     ''    3. Flight durations and layover information\<newline>'' @
     ''    4. Best booking times and price trends\<newline>'' @
     ''    5. Seasonal pricing variations\<newline>'' @
     ''\<newline>'' @
     ''    Focus on realistic, current pricing for January 2026 travel.\<newline>'' @
     ''    ''"

definition search_flight_prices :: "string \<Rightarrow> string \<Rightarrow> network \<Rightarrow> string \<times> network" where
  "search_flight_prices destination departure_city net =
     (let search_query = ''flights from '' @ departure_city @ '' to '' @ destination @ '' prices 2026 best options''
      in (search_flight_prices_head @ departure_city @ '' to '' @ destination @ search_flight_prices_tail, net))"

definition search_hotel_options_head :: string where
  "search_hotel_options_head =
     ''\<newline>'' @
     ''    Research task: Find hotels in ''"

definition search_hotel_options_tail :: string where
  "search_hotel_options_tail =
     ''.\<newline>'' @
     ''\<newline>'' @
     ''    Please research and provide:\<newline>'' @
     ''    1. Top-rated hotels with guest reviews (check Booking.com, TripAdvisor, Google Hotels)\<newline>'' @
     ''    2. Current pricing for 5-night stays\<newline>'' @
     ''    3. Hotel amenities and facilities\<newline>'' @
     ''    4. Location details and proximity to attractions\<newline>'' @
     ''    5. Guest ratings and recommendation reasons\<newline>'' @
     ''\<newline>'' @
     ''    Include budget, mid-range, and luxury options.\<newline>'' @
     ''    Focus on hotels with high ratings and realistic current prices.\<newline>'' @
     ''    ''"

definition search_hotel_options :: "string \<Rightarrow> string \<Rightarrow> network \<Rightarrow> string \<times> network" where
  "search_hotel_options location check_in_date net =
     (let search_query = ''hotels in '' @ location @ '' '' @ check_in_date @ '' reviews ratings prices 2026''
      in (search_hotel_options_head @ location @ '' for check-in '' @ check_in_date @ search_hotel_options_tail, net))"

definition search_local_transportation_head :: string where
  "search_local_transportation_head =
     ''\<newline>'' @
     ''        Research task: Find local transportation options in ''"

definition search_local_transportation_tail :: string where
  "search_local_transportation_tail =
     ''.\<newline>'' @
     ''\<newline>'' @
     ''        Please research and provide:\<newline>'' @
     ''        1. Public transportation systems (buses, trains, subways)\<newline>'' @
     ''        2. Rental car options and average daily rates\<newline>'' @
     ''        3. Taxi and rideshare services (Uber, Lyft, local equivalents)\<newline>'' @
     ''        4. Transportation passes or tourist cards\<newline>'' @
     ''        5. Estimated costs for different transportation methods\<newline>'' @
     ''        6. Best transportation options for tourists\<newline>'' @
     ''        7. Driving considerations (license requirements, road conditions)\<newline>'' @
     ''        8. Walking and biking options\<newline>'' @
     ''\<newline>'' @
     ''        Provide realistic, current pricing and practical advice for travelers.\<newline>'' @
     ''        Focus on options that are convenient and cost-effective for tourists.\<newline>'' @
     ''        ''"

definition search_local_transportation :: "string \<Rightarrow> network \<Rightarrow> string \<times> network" where
  "search_local_transportation destination net =
     (let search_query = destination @ '' local transportation public transit rental cars taxis rideshare 2026''
      in (search_local_transportation_head @ destination @ search_local_transportation_tail, net))"

definition search_attractions_activities_head :: string where
  "search_attractions_activities_head =
     ''\<newline>'' @
     ''    Research task: Find attractions and activities in ''"

definition search_attractions_activities_tail :: string where
  "search_attractions_activities_tail =
     ''.\<newline>'' @
     ''\<newline>'' @
     ''    Please research and provide:\<newline>'' @
     ''    1. Top-rated attractions and their estimated visit times\<newline>'' @
     ''    2. Popular day tours and multi-day excursions\<newline>'' @
     ''    3. Outdoor activities (hiking, water sports, wildlife viewing)\<newline>'' @
     ''    4. Cultural sites and local experiences\<newline>'' @
     ''    5. Typical costs for tours and entrance fees\<newline>'' @
     ''    6. Best time to visit each location\<newline>'' @
     ''    7. Transportation options between sites\<newline>'' @
     ''\<newline>'' @
     ''    Include hidden gems and less-known but highly-rated activities.\<newline>'' @
     ''    Focus on realistic itineraries that can be completed in 5 days.\<newline>'' @
     ''    ''"

definition search_attractions_activities :: "string \<Rightarrow> network \<Rightarrow> string \<times> network" where
  "search_attractions_activities destination net =
     (let search_query = destination @ '' attractions activities tours things to do 2026''
      in (search_attractions_activities_head @ destination @ search_attractions_activities_tail, net))"

definition search_travel_costs_head :: string where
  "search_travel_costs_head =
     ''\<newline>'' @
     ''    Research task: Find cost information for a trip to ''"

definition search_travel_costs_tail :: string where
  "search_travel_costs_tail =
     ''.\<newline>'' @
     ''\<newline>'' @
     ''    Please research and provide:\<newline>'' @
     ''    1. Average meal costs (budget, mid-range, restaurants)\<newline>'' @
     ''    2. Public transportation costs and rental car prices\<newline>'' @
     ''    3. Tour and activity pricing\<newline>'' @
     ''    4. Entrance fees for attractions\<newline>'' @
     ''    5. Estimated daily costs for different budget levels\<newline>'' @
     ''    6. Money-saving tips and best budget periods\<newline>'' @
     ''    7. Currency exchange rates and payment methods\<newline>'' @
     ''\<newline>'' @
     ''    Provide realistic, current pricing information for 2025.\<newline>'' @
     ''    Focus on actual costs travelers can expect.\<newline>'' @
     ''    ''"

definition search_travel_costs :: "string \<Rightarrow> network \<Rightarrow> string \<times> network" where
  "search_travel_costs destination net =
     (let search_query = destination @ '' travel costs budget prices meals transport 2025''
      in (search_travel_costs_head @ destination @ search_travel_costs_tail, net))"

text \<open>\<open>departure_city\<close> defaults to \<open>"New York"\<close> when the tool is called with one argument.\<close>

definition search_flight_prices_default :: "string \<Rightarrow> network \<Rightarrow> string \<times> network" where
  "search_flight_prices_default destination net =
     search_flight_prices destination ''New York'' net"

subsection \<open>The hotel agent and the hotel task\<close>

text \<open>
  \<open>str.lower\<close> on code points below 256: the ASCII capitals and the Latin-1 capitals
  (\<open>0xC0\<close> to \<open>0xDE\<close> without the multiplication sign \<open>0xD7\<close>) move up by 32.
\<close>

definition lower_char :: "char \<Rightarrow> char" where
  "lower_char c =
     (let n = (of_char c :: nat)
      in if (65 \<le> n \<and> n \<le> 90) \<or> (192 \<le> n \<and> n \<le> 222 \<and> n \<noteq> 215)
         then char_of (n + 32) else c)"

definition py_lower :: "string \<Rightarrow> string" where
  "py_lower s = map lower_char s"

text \<open>The fields of \<open>Agent\<close> and \<open>Task\<close> the script sets; a tool is named by its function.\<close>

record crew_agent =
  role :: string
  goal :: string
  backstory :: string
  tools :: "string list"
  verbose :: bool
  allow_delegation :: bool

record crew_task =
  description :: string
  agent :: crew_agent
  expected_output :: string

definition create_hotel_agent :: "string \<Rightarrow> string \<Rightarrow> crew_agent" where
  "create_hotel_agent destination trip_dates =
     (let hotel_location =
            (if py_lower destination = ''iceland'' then ''Reykjavik''
             else if py_lower destination = ''france'' then ''Paris''
             else if py_lower destination = ''japan'' then ''Tokyo''
             else destination)
      in \<lparr>role = ''Luxury Hospitality Consultant'',
          goal =
        ''Suggest top-rated hotels in '' @
        hotel_location @
        '' for the '' @
        destination @
        '' trip ('' @
        trip_dates @
        ''), considering amenities, location, and value for money. Use real hotel data '' @
        ''from booking sites with current prices and reviews.'',
          backstory =
        ''You are Marco 'The Concierge' Rodriguez, a five-star hotel consultant who has '' @
        ''personally inspected over 500 luxury properties worldwide. Formerly the head '' @
        ''concierge at The Ritz-Carlton and Four Seasons, you have an uncanny ability '' @
        ''to match travelers with their perfect accommodation. You remember every '' @
        ''hotel's secret amenities, which rooms have the best views, and which hotels '' @
        ''offer complimentary upgrades. Your network includes hotel general managers '' @
        ''across six continents, and you can spot a fake review from a mile away. You '' @
        ''believe the right hotel can make or break a vacation experience.'',
          tools = [''search_hotel_options''],
          verbose = True,
          allow_delegation = False\<rparr>)"

definition create_hotel_task :: "crew_agent \<Rightarrow> string \<Rightarrow> string \<Rightarrow> crew_task" where
  "create_hotel_task hotel_agent destination trip_dates =
     (let hotel_location =
            (if py_lower destination = ''iceland'' then ''Reykjavik''
             else if py_lower destination = ''france'' then ''Paris''
             else if py_lower destination = ''japan'' then ''Tokyo''
             else destination)
      in \<lparr>description =
        ''Based on the trip dates ('' @
        trip_dates @
        ''), find and recommend the top 3-4 REAL hotels in '' @
        hotel_location @
        ''. Research actual hotels on Booking.com, TripAdvisor, Google Hotels, and '' @
        ''Expedia. For each hotel, provide the actual name, current guest ratings, real '' @
        ''prices per night, confirmed amenities, and explain why it suits this trip. '' @
        ''Include a mix of budget, mid-range, and luxury options with honest reviews.'',
          agent = hotel_agent,
          expected_output =
        ''A curated list of 3-4 REAL hotel recommendations in '' @
        hotel_location @
        '' with actual details about each hotel, confirmed amenities, real guest '' @
        ''ratings, current prices, and personalized recommendations based on actual '' @
        ''guest reviews''\<rparr>)"

text \<open>
  The hotel location as the claim words it: the capital for the three countries the script
  knows, whatever the case of the letters, and the destination itself otherwise.
\<close>

definition spec_hotel_location :: "string \<Rightarrow> string" where
  "spec_hotel_location destination =
     (if py_lower destination = ''iceland'' then ''Reykjavik''
      else if py_lower destination = ''france'' then ''Paris''
      else if py_lower destination = ''japan'' then ''Tokyo''
      else destination)"

subsection \<open>The command line\<close>









text \<open>The keyword arguments \<open>main\<close> is called with.\<close>

record kwargs =
  destination :: string
  trip_duration :: string
  trip_dates :: string
  departure_city :: string
  travelers :: int
  budget_preference :: string



subsection \<open>Properties of the tools\<close>

text \<open>
  Claim C3. Each of the five tools returns fixed text with its string arguments spliced
  in, the same for every state of the network, and leaves the log of requests as it
  found it: it makes no call.
\<close>

theorem tools_return_templates_without_network_calls:
  "(\<exists>pre mid post. \<forall>dest city net.
      search_flight_prices dest city net
        = (pre @ city @ mid @ dest @ post, net)) \<and>
   (\<exists>pre mid post. \<forall>location check_in_date net.
      search_hotel_options location check_in_date net
        = (pre @ location @ mid @ check_in_date @ post, net)) \<and>
   (\<exists>pre post. \<forall>dest net.
      search_local_transportation dest net = (pre @ dest @ post, net)) \<and>
   (\<exists>pre post. \<forall>dest net.
      search_attractions_activities dest net = (pre @ dest @ post, net)) \<and>
   (\<exists>pre post. \<forall>dest net.
      search_travel_costs dest net = (pre @ dest @ post, net))"
  unfolding search_flight_prices_def search_hotel_options_def search_local_transportation_def
    search_attractions_activities_def search_travel_costs_def Let_def
  by (intro conjI exI allI; rule refl)

text \<open>The theorem read at the hotel tool on one input and two states of the network.\<close>

theorem tools_return_templates_without_network_calls_witness:
  "fst (search_hotel_options ''Paris'' ''June 1'' []) =
     fst (search_hotel_options ''Paris'' ''June 1'' [''GET https://example.org'']) \<and>
   snd (search_hotel_options ''Paris'' ''June 1'' []) = []"
proof -
  from tools_return_templates_without_network_calls
  obtain pre mid post where
    "\<forall>location check_in_date net. search_hotel_options location check_in_date net
        = (pre @ location @ mid @ check_in_date @ post, net)"
    by blast
  then show ?thesis by simp
qed

subsection \<open>Properties of the hotel location\<close>

text \<open>
  Claim C9. The hotel agent and the hotel task name the same location, the one the claim
  describes: the agent's goal and the task's description and expected output all splice
  \<open>spec_hotel_location\<close> of the destination in after their fixed words.
\<close>

theorem hotel_agent_and_task_share_location:
  "prefix (''Suggest top-rated hotels in '' @ spec_hotel_location dest @ '' for the '')
     (goal (create_hotel_agent dest dates)) \<and>
   sublist (''REAL hotels in '' @ spec_hotel_location dest @ ''. Research'')
     (description (create_hotel_task hotel_agent dest dates)) \<and>
   prefix (''A curated list of 3-4 REAL hotel recommendations in '' @
           spec_hotel_location dest @ '' with actual details'')
     (expected_output (create_hotel_task hotel_agent dest dates))"
proof (intro conjI)
  show "prefix (''Suggest top-rated hotels in '' @ spec_hotel_location dest @ '' for the '')
     (goal (create_hotel_agent dest dates))"
    unfolding create_hotel_agent_def spec_hotel_location_def Let_def by simp
  show "sublist (''REAL hotels in '' @ spec_hotel_location dest @ ''. Research'')
     (description (create_hotel_task hotel_agent dest dates))"
    unfolding sublist_def create_hotel_task_def spec_hotel_location_def Let_def
    by (rule exI[of _ "''Based on the trip dates ('' @ dates
          @ ''), find and recommend the top 3-4 ''"], rule exI) simp
  show "prefix (''A curated list of 3-4 REAL hotel recommendations in '' @
           spec_hotel_location dest @ '' with actual details'')
     (expected_output (create_hotel_task hotel_agent dest dates))"
    unfolding create_hotel_task_def spec_hotel_location_def Let_def by simp
qed

lemma lower_examples:
  "py_lower ''ICELAND'' = ''iceland''"
  "py_lower ''Japan'' = ''japan''"
  "py_lower ''Norway'' = ''norway''"
  by (code_simp+)

text \<open>The theorem at a dest in capitals.\<close>

theorem hotel_agent_and_task_share_location_witness:
  "spec_hotel_location ''ICELAND'' = ''Reykjavik'' \<and>
   prefix ''Suggest top-rated hotels in Reykjavik for the ''
     (goal (create_hotel_agent ''ICELAND'' ''January 15-20, 2026'')) \<and>
   prefix ''A curated list of 3-4 REAL hotel recommendations in Reykjavik with actual details''
     (expected_output (create_hotel_task (create_hotel_agent ''ICELAND'' ''January 15-20, 2026'')
        ''ICELAND'' ''January 15-20, 2026''))"
proof -
  have loc: "spec_hotel_location ''ICELAND'' = ''Reykjavik''"
    by (simp add: spec_hotel_location_def lower_examples)
  from hotel_agent_and_task_share_location[of "''ICELAND''" "''January 15-20, 2026''"
      "create_hotel_agent ''ICELAND'' ''January 15-20, 2026''"]
  show ?thesis unfolding loc using loc by simp
qed

subsection \<open>Properties of the command line\<close>




end
